theory Spec2Isabelle
  imports Complex_Main "HOL-Library.Word"
begin

section \<open>The vault of pfvault: data, platform and environment\<close>

text \<open>
  The repository is one client-side React module. Its core is glue around services
  of the browser: Web Crypto (PBKDF2, SHA-256, AES-GCM), \<open>TextEncoder\<close>,
  \<open>JSON\<close>, \<open>btoa\<close>/\<open>atob\<close>, \<open>localStorage\<close> and
  \<open>window.crypto.getRandomValues\<close>. The functions of the module are embedded as
  HOL functions; the pure services come in as a record \<open>platform\<close> of functions
  (the theorems hold for every platform, under the laws they name), and the mutable
  surroundings (the stored item, the random source, whether \<open>window\<close> exists) are
  a record \<open>world\<close> that is passed through explicitly.

  JavaScript strings are modelled by \<open>string\<close>, byte buffers (\<open>ArrayBuffer\<close>,
  \<open>Uint8Array\<close>) by lists of 8-bit words, a thrown exception by \<open>Inl\<close> of a
  \<open>js_error\<close>. Asynchronous functions are run to completion, one after the
  other.
\<close>

type_synonym byte = "8 word"
type_synonym bytes = "byte list"

datatype js_error =
    TypeError | SyntaxError | OperationError | InvalidCharacterError | QuotaExceededError
  | RangeError

text \<open>A JavaScript number that is only stored and copied: \<open>NaN\<close> or a real.\<close>

datatype jsnum = NaN | Num real

subsection \<open>The decrypted payload (interfaces Category, Entry, Currency, HistoryItem)\<close>

record category =
  c_id :: string
  c_name :: string
  c_amount :: jsnum
  c_currency :: "string option"
  c_remarks :: "string option"

record entry =
  e_id :: string
  e_categoryId :: string
  e_amount :: jsnum
  e_dateISO :: string

record currency =
  cur_code :: string
  cur_rate :: jsnum

record history_item =
  h_id :: string
  h_ts :: string
  h_type :: string
  h_entry :: "entry option"
  h_category :: "category option"
  h_removedEntriesCount :: "nat option"

text \<open>
  \<open>categories\<close> and \<open>entries\<close> are in every payload the module writes;
  \<open>currencies\<close>, \<open>baseCurrency\<close> and \<open>history\<close> may be missing in a
  decrypted payload (\<open>onUnlock\<close> fills them in), hence the options.
\<close>

record payload =
  categories :: "category list"
  entries :: "entry list"
  currencies :: "currency list option"
  baseCurrency :: "string option"
  history :: "history_item list option"

subsection \<open>The stored record (localStorage key PF\_E2EE\_V1)\<close>

record qa_hashed =
  qa_q :: string
  saltB64 :: string
  hashB64 :: string

record user_block =
  u_firstName :: string

record auth_block =
  saltPwdHex :: string
  verifierHex :: string
  qas :: "qa_hashed list"

record enc_block =
  saltEncHex :: string
  ivB64 :: string
  ciphertextB64 :: string

record vault_state =
  version :: nat
  user :: user_block
  auth :: auth_block
  enc :: enc_block

subsection \<open>Platform services and the world\<close>

text \<open>
  \<open>deriveBits\<close> is \<open>crypto.subtle.deriveBits\<close> for PBKDF2 with SHA-256 (key
  material, salt, iterations, number of bits); an AES-GCM key is its raw 32 bytes.
  \<open>aes_gcm_decrypt\<close> returns \<open>None\<close> where the browser throws an
  OperationError, \<open>json_parse\<close> where \<open>JSON.parse\<close> throws, \<open>atob\<close>
  where \<open>atob\<close> throws. \<open>btoa\<close> and \<open>atob\<close> work on binary strings.
  The functions say what the services compute when they can be called at all; whether
  \<open>crypto.subtle\<close> is there to be called is a matter of the world.
\<close>

record platform =
  deriveBits :: "bytes \<Rightarrow> bytes \<Rightarrow> nat \<Rightarrow> nat \<Rightarrow> bytes"
  sha256_digest :: "bytes \<Rightarrow> bytes"
  aes_gcm_encrypt :: "bytes \<Rightarrow> bytes \<Rightarrow> bytes \<Rightarrow> bytes"
  aes_gcm_decrypt :: "bytes \<Rightarrow> bytes \<Rightarrow> bytes \<Rightarrow> bytes option"
  utf8_encode :: "string \<Rightarrow> bytes"
  utf8_decode :: "bytes \<Rightarrow> string"
  json_stringify :: "payload \<Rightarrow> string"
  json_parse :: "string \<Rightarrow> payload option"
  btoa :: "string \<Rightarrow> string"
  atob :: "string \<Rightarrow> string option"
  trim :: "string \<Rightarrow> string"
  toLowerCase :: "string \<Rightarrow> string"
  toUpperCase :: "string \<Rightarrow> string"

text \<open>
  The world.
  \<^item> \<open>window_defined\<close>: \<open>typeof window !== 'undefined'\<close>.
  \<^item> \<open>crypto_bound\<close>: the global \<open>crypto\<close> is an object. In a browser
    \<open>window\<close> is the global object, so \<open>window.crypto\<close> is this same object:
    where \<open>window\<close> is defined, \<open>window.crypto\<close> is truthy exactly when
    \<open>crypto_bound\<close> holds.
  \<^item> \<open>subtle_ok\<close>: \<open>crypto.subtle\<close> is defined (it is not in an insecure
    context).
  \<^item> \<open>spread_limit\<close>: the most arguments the engine takes in one call;
    \<open>String.fromCharCode(...bytes)\<close> throws a RangeError on a longer buffer.
  \<^item> \<open>ls_item\<close>: the item under the storage key, seen through
    \<open>JSON.stringify\<close> and \<open>JSON.parse\<close>: absent, a string that is empty or
    does not parse (\<open>Unparsable\<close>), or the record that \<open>saveState\<close> wrote.
  \<^item> \<open>ls_writable\<close>: \<open>localStorage.setItem\<close> succeeds (it throws a
    QuotaExceededError otherwise).
  \<^item> \<open>entropy\<close>: the tape of bytes that \<open>getRandomValues\<close> hands out;
    \<open>drawn\<close>: how many were taken.
\<close>

datatype ls_value = Unparsable | Stored vault_state

record world =
  window_defined :: bool
  crypto_bound :: bool
  subtle_ok :: bool
  spread_limit :: nat
  ls_item :: "ls_value option"
  ls_writable :: bool
  entropy :: "nat \<Rightarrow> byte"
  drawn :: nat

text \<open>
  \<open>typeof window !== 'undefined' && window.crypto\<close>, the test of
  \<open>randBytes\<close>; and whether a call \<open>crypto.subtle.f(...)\<close> can be made. Where
  it cannot, evaluating it throws (a TypeError when \<open>crypto\<close> or
  \<open>crypto.subtle\<close> is undefined, a ReferenceError when the global is not declared
  at all; the model writes \<open>TypeError\<close> for both).
\<close>

definition crypto_available :: "world \<Rightarrow> bool" where
  "crypto_available w = (window_defined w \<and> crypto_bound w)"

definition subtle_available :: "world \<Rightarrow> bool" where
  "subtle_available w = (crypto_bound w \<and> subtle_ok w)"

section \<open>Encoding helpers\<close>

text \<open>\<open>b.toString(16).padStart(2, '0')\<close>, byte by byte.\<close>

definition hexdigit :: "nat \<Rightarrow> char" where
  "hexdigit n = ''0123456789abcdef'' ! n"

definition toString16 :: "nat \<Rightarrow> string" where
  "toString16 n = (if n < 16 then [hexdigit n] else [hexdigit (n div 16), hexdigit (n mod 16)])"

definition padStart2 :: "string \<Rightarrow> string" where
  "padStart2 s = replicate (2 - length s) CHR ''0'' @ s"

definition toHex :: "bytes \<Rightarrow> string" where
  "toHex buf = concat (map (\<lambda>b. padStart2 (toString16 (unat b))) buf)"

text \<open>
  \<open>parseInt(s, 16)\<close>: leading white space is skipped, then a sign, then an
  optional \<open>0x\<close>; the longest prefix of hexadecimal digits is the value, and none
  gives \<open>NaN\<close> (\<open>None\<close>). Storing into a \<open>Uint8Array\<close> takes the value
  modulo 256, and \<open>NaN\<close> to 0.
\<close>

definition js_whitespace :: "char \<Rightarrow> bool" where
  "js_whitespace c = (of_char c \<in> set [9, 10, 11, 12, 13, 32, 160 :: nat])"

definition hexval :: "char \<Rightarrow> nat option" where
  "hexval c =
     (let n = (of_char c :: nat)
      in if 48 \<le> n \<and> n \<le> 57 then Some (n - 48)
         else if 97 \<le> n \<and> n \<le> 102 then Some (n - 87)
         else if 65 \<le> n \<and> n \<le> 70 then Some (n - 55)
         else None)"

definition hexdigits_value :: "string \<Rightarrow> nat" where
  "hexdigits_value ds = foldl (\<lambda>a c. case hexval c of Some d \<Rightarrow> 16 * a + d | None \<Rightarrow> a) 0 ds"

definition parseInt16 :: "string \<Rightarrow> int option" where
  "parseInt16 input =
     (let s = dropWhile js_whitespace input;
          (neg, s1) = (case s of
                         [] \<Rightarrow> (False, [])
                       | c # r \<Rightarrow> if c = CHR ''-'' then (True, r)
                                  else if c = CHR ''+'' then (False, r) else (False, s));
          s2 = (if take 2 s1 = ''0x'' \<or> take 2 s1 = ''0X'' then drop 2 s1 else s1);
          ds = takeWhile (\<lambda>c. hexval c \<noteq> None) s2
      in if ds = [] then None
         else Some ((if neg then - 1 else 1) * int (hexdigits_value ds)))"

definition to_uint8 :: "int option \<Rightarrow> byte" where
  "to_uint8 v = (case v of None \<Rightarrow> 0 | Some i \<Rightarrow> word_of_int i)"

definition substr :: "string \<Rightarrow> nat \<Rightarrow> nat \<Rightarrow> string" where
  "substr s start len = take len (drop start s)"

definition fromHex :: "string \<Rightarrow> bytes" where
  "fromHex hex =
     map (\<lambda>i. to_uint8 (parseInt16 (substr hex (i * 2) 2))) [0 ..< length hex div 2]"

text \<open>
  \<open>String.fromCharCode(...bytes)\<close> (the characters of a buffer that the engine
  accepts as arguments) and the loop of \<open>b64decode\<close> over \<open>charCodeAt\<close>.
  Both helpers give up without \<open>window\<close>.
\<close>

definition fromCharCode :: "bytes \<Rightarrow> string" where
  "fromCharCode buf = map (\<lambda>b. char_of (unat b)) buf"

definition charCodes :: "string \<Rightarrow> bytes" where
  "charCodes binStr = map (\<lambda>c. of_nat (of_char c)) binStr"

definition b64encode :: "platform \<Rightarrow> world \<Rightarrow> bytes \<Rightarrow> js_error + string" where
  "b64encode P w buf =
     (if window_defined w
      then (if length buf \<le> spread_limit w then Inr (btoa P (fromCharCode buf))
            else Inl RangeError)
      else Inr [])"

definition b64decode :: "platform \<Rightarrow> world \<Rightarrow> string \<Rightarrow> js_error + bytes" where
  "b64decode P w b64 =
     (if window_defined w
      then (case atob P b64 of
              None \<Rightarrow> Inl InvalidCharacterError
            | Some binStr \<Rightarrow> Inr (charCodes binStr))
      else Inr [])"

section \<open>Random bytes, key derivation, hashing\<close>

definition randBytes :: "world \<Rightarrow> nat \<Rightarrow> bytes \<times> world" where
  "randBytes w n =
     (if crypto_available w
      then (map (entropy w) [drawn w ..< drawn w + n], w\<lparr>drawn := drawn w + n\<rparr>)
      else (replicate n 0, w))"

definition pbkdf2 :: "platform \<Rightarrow> world \<Rightarrow> string \<Rightarrow> bytes \<Rightarrow> nat \<Rightarrow> nat \<Rightarrow> js_error + bytes" where
  "pbkdf2 P w password salt iterations len =
     (if subtle_available w
      then Inr (deriveBits P (utf8_encode P password) salt iterations (len * 8))
      else Inl TypeError)"

definition getAesKeyFromPassword :: "platform \<Rightarrow> world \<Rightarrow> string \<Rightarrow> bytes \<Rightarrow> js_error + bytes" where
  "getAesKeyFromPassword P w password salt = pbkdf2 P w password salt 210000 32"

definition sha256 :: "platform \<Rightarrow> world \<Rightarrow> bytes \<Rightarrow> js_error + bytes" where
  "sha256 P w buf = (if subtle_available w then Inr (sha256_digest P buf) else Inl TypeError)"

definition hashAnswer :: "platform \<Rightarrow> world \<Rightarrow> string \<Rightarrow> bytes \<Rightarrow> js_error + string" where
  "hashAnswer P w answer saltBytes =
     (let norm = toLowerCase P (trim P answer);
          concat_buf = utf8_encode P norm @ saltBytes
      in (case sha256 P w concat_buf of
            Inl e \<Rightarrow> Inl e
          | Inr digest \<Rightarrow> b64encode P w digest))"

section \<open>Encrypting and decrypting the payload\<close>

record enc_result =
  er_iv :: string
  er_ciphertext :: string

definition encryptJson ::
  "platform \<Rightarrow> payload \<Rightarrow> bytes \<Rightarrow> world \<Rightarrow> (js_error + enc_result) \<times> world" where
  "encryptJson P obj key w =
     (let (iv, w1) = randBytes w 12;
          plaintext = utf8_encode P (json_stringify P obj)
      in if subtle_available w
         then (let cipher = aes_gcm_encrypt P key iv plaintext
               in (case b64encode P w iv of
                     Inl e \<Rightarrow> (Inl e, w1)
                   | Inr iv64 \<Rightarrow>
                       (case b64encode P w cipher of
                          Inl e \<Rightarrow> (Inl e, w1)
                        | Inr cipher64 \<Rightarrow>
                            (Inr \<lparr>er_iv = iv64, er_ciphertext = cipher64\<rparr>, w1))))
         else (Inl TypeError, w1))"

definition decryptJson :: "platform \<Rightarrow> world \<Rightarrow> string \<Rightarrow> string \<Rightarrow> bytes \<Rightarrow> js_error + payload" where
  "decryptJson P w ct_b64 iv_b64 key =
     (case b64decode P w ct_b64 of
        Inl e \<Rightarrow> Inl e
      | Inr cipher \<Rightarrow>
          (case b64decode P w iv_b64 of
             Inl e \<Rightarrow> Inl e
           | Inr iv \<Rightarrow>
               if subtle_available w
               then (case aes_gcm_decrypt P key iv cipher of
                       None \<Rightarrow> Inl OperationError
                     | Some plain \<Rightarrow>
                         (case json_parse P (utf8_decode P plain) of
                            None \<Rightarrow> Inl SyntaxError
                          | Some obj \<Rightarrow> Inr obj))
               else Inl TypeError))"

section \<open>Storage\<close>

definition loadState :: "world \<Rightarrow> vault_state option" where
  "loadState w =
     (if window_defined w
      then (case ls_item w of
              None \<Rightarrow> None
            | Some Unparsable \<Rightarrow> None
            | Some (Stored s) \<Rightarrow> Some s)
      else None)"

definition saveState :: "vault_state \<Rightarrow> world \<Rightarrow> js_error + world" where
  "saveState obj w =
     (if window_defined w
      then (if ls_writable w then Inr (w\<lparr>ls_item := Some (Stored obj)\<rparr>)
            else Inl QuotaExceededError)
      else Inr w)"


section \<open>First-time setup (SetupScreen)\<close>

record setup_form =
  sf_firstName :: string
  sf_password :: string
  sf_confirm :: string
  sf_qas :: "(string \<times> string) list"

text \<open>
  What \<open>handleSetup\<close> leaves behind: the message given to \<open>setErr\<close>, whether
  \<open>onComplete\<close> was called, and the exception that ended it, if any (nothing
  catches it).
\<close>

record setup_result =
  sr_err :: string
  sr_completed :: bool
  sr_thrown :: "js_error option"

definition setup_refused :: "string \<Rightarrow> setup_result" where
  "setup_refused msg = \<lparr>sr_err = msg, sr_completed = False, sr_thrown = None\<rparr>"

definition setup_threw :: "js_error \<Rightarrow> setup_result" where
  "setup_threw e = \<lparr>sr_err = [], sr_completed = False, sr_thrown = Some e\<rparr>"

definition setup_done :: setup_result where
  "setup_done = \<lparr>sr_err = [], sr_completed = True, sr_thrown = None\<rparr>"

definition initialData :: payload where
  "initialData =
     \<lparr>categories = [], entries = [],
      currencies = Some [\<lparr>cur_code = ''BDT'', cur_rate = Num 1\<rparr>],
      baseCurrency = Some ''BDT'', history = Some []\<rparr>"

text \<open>The loop over the five pairs: a fresh salt, the hash, then the push.\<close>

fun hashQas ::
  "platform \<Rightarrow> (string \<times> string) list \<Rightarrow> world \<Rightarrow> (js_error + qa_hashed list) \<times> world" where
  "hashQas P [] w = (Inr [], w)"
| "hashQas P (qa # rest) w =
     (let (salt, w1) = randBytes w 16
      in (case hashAnswer P w (snd qa) salt of
            Inl e \<Rightarrow> (Inl e, w1)
          | Inr hash \<Rightarrow>
              (case b64encode P w salt of
                 Inl e \<Rightarrow> (Inl e, w1)
               | Inr salt64 \<Rightarrow>
                   (case hashQas P rest w1 of
                      (Inl e, w2) \<Rightarrow> (Inl e, w2)
                    | (Inr hashed, w2) \<Rightarrow>
                        (Inr (\<lparr>qa_q = fst qa, saltB64 = salt64, hashB64 = hash\<rparr> # hashed),
                         w2)))))"

definition handleSetup :: "platform \<Rightarrow> setup_form \<Rightarrow> world \<Rightarrow> setup_result \<times> world" where
  "handleSetup P form w =
     (if sf_firstName form = [] \<or> sf_password form = [] \<or> sf_confirm form = []
      then (setup_refused ''Please fill all required fields.'', w)
      else if sf_password form \<noteq> sf_confirm form
      then (setup_refused ''Passwords do not match.'', w)
      else if list_ex (\<lambda>qa. fst qa = [] \<or> snd qa = []) (sf_qas form)
      then (setup_refused ''Please provide all 5 questions and answers.'', w)
      else
        (let (saltPwd, w1) = randBytes w 16
         in (case pbkdf2 P w (sf_password form) saltPwd 210000 32 of
               Inl e \<Rightarrow> (setup_threw e, w1)
             | Inr verifierBits \<Rightarrow>
                 (let verifier = toHex verifierBits;
                      (saltEnc, w2) = randBytes w1 16
                  in (case getAesKeyFromPassword P w (sf_password form) saltEnc of
                        Inl e \<Rightarrow> (setup_threw e, w2)
                      | Inr key \<Rightarrow>
                          (case hashQas P (sf_qas form) w2 of
                             (Inl e, w3) \<Rightarrow> (setup_threw e, w3)
                           | (Inr qasHashed, w3) \<Rightarrow>
                               (case encryptJson P initialData key w3 of
                                  (Inl e, w4) \<Rightarrow> (setup_threw e, w4)
                                | (Inr enc_res, w4) \<Rightarrow>
                                    (let state =
                                       \<lparr>version = 1,
                                        user = \<lparr>u_firstName = sf_firstName form\<rparr>,
                                        auth = \<lparr>saltPwdHex = toHex saltPwd,
                                                verifierHex = verifier, qas = qasHashed\<rparr>,
                                        enc = \<lparr>saltEncHex = toHex saltEnc,
                                               ivB64 = er_iv enc_res,
                                               ciphertextB64 = er_ciphertext enc_res\<rparr>\<rparr>
                                     in (case saveState state w4 of
                                           Inl e \<Rightarrow> (setup_threw e, w4)
                                         | Inr w5 \<Rightarrow> (setup_done, w5))))))))))"

section \<open>Login (LoginScreen)\<close>

record login_screen =
  lg_password :: string
  lg_step :: nat
  lg_answers :: "string \<rightharpoonup> string"
  lg_err :: string

definition login_init :: login_screen where
  "login_init = \<lparr>lg_password = [], lg_step = 1, lg_answers = Map.empty, lg_err = []\<rparr>"

definition verifyPassword :: "platform \<Rightarrow> world \<Rightarrow> login_screen \<Rightarrow> login_screen" where
  "verifyPassword P w lg =
     (let lg0 = lg\<lparr>lg_err := []\<rparr>
      in (case loadState w of
            None \<Rightarrow> lg0\<lparr>lg_err := ''Something went wrong.''\<rparr>
          | Some state \<Rightarrow>
              (let saltPwd = fromHex (saltPwdHex (auth state))
               in (case pbkdf2 P w (lg_password lg) saltPwd 210000 32 of
                     Inl e \<Rightarrow> lg0\<lparr>lg_err := ''Something went wrong.''\<rparr>
                   | Inr verifierBits \<Rightarrow>
                       (let verifier = toHex verifierBits
                        in if verifier \<noteq> verifierHex (auth state)
                           then lg0\<lparr>lg_err := ''Invalid password.''\<rparr>
                           else lg0\<lparr>lg_step := 2\<rparr>)))))"

text \<open>
  \<open>answers\<close> is a plain object (\<open>useState({})\<close>) keyed by question text, so
  \<open>answers[qa.q]\<close> is the answer typed for that text, a member inherited from
  \<open>Object.prototype\<close> when the text is one of its property names and nothing was
  typed, and \<open>undefined\<close> otherwise. \<open>answers[qa.q] || ''\<close> then goes to
  \<open>hashAnswer\<close>, whose \<open>answer.trim()\<close> throws a TypeError on an inherited
  member (a function or an object).
\<close>

datatype js_prop = Undefined | Str string | Inherited

definition object_prototype_keys :: "string list" where
  "object_prototype_keys =
     [''constructor'', ''__defineGetter__'', ''__defineSetter__'', ''hasOwnProperty'',
      ''__lookupGetter__'', ''__lookupSetter__'', ''isPrototypeOf'',
      ''propertyIsEnumerable'', ''toString'', ''valueOf'', ''__proto__'',
      ''toLocaleString'']"

definition get_answer :: "(string \<rightharpoonup> string) \<Rightarrow> string \<Rightarrow> js_prop" where
  "get_answer answers k =
     (case answers k of
        Some a \<Rightarrow> Str a
      | None \<Rightarrow> if k \<in> set object_prototype_keys then Inherited else Undefined)"

definition answer_or_empty :: "js_prop \<Rightarrow> js_error + string" where
  "answer_or_empty v =
     (case v of Undefined \<Rightarrow> Inr [] | Str a \<Rightarrow> Inr a | Inherited \<Rightarrow> Inl TypeError)"

datatype check_result = AllMatch | Mismatch | Threw js_error

fun check_answers :: "platform \<Rightarrow> world \<Rightarrow> (string \<rightharpoonup> string) \<Rightarrow> qa_hashed list \<Rightarrow> check_result" where
  "check_answers P w answers [] = AllMatch"
| "check_answers P w answers (qa # rest) =
     (case b64decode P w (saltB64 qa) of
        Inl e \<Rightarrow> Threw e
      | Inr salt \<Rightarrow>
          (case answer_or_empty (get_answer answers (qa_q qa)) of
             Inl e \<Rightarrow> Threw e
           | Inr a \<Rightarrow>
               (case hashAnswer P w a salt of
                  Inl e \<Rightarrow> Threw e
                | Inr given \<Rightarrow>
                    if given \<noteq> hashB64 qa then Mismatch
                    else check_answers P w answers rest)))"

text \<open>
  \<open>verifyQuestions\<close> returns the screen and, when it gets that far, the argument
  \<open>{key, data}\<close> it hands to \<open>onUnlock\<close>. Every exception ends in the
  \<open>catch\<close>.
\<close>

definition verifyQuestions ::
  "platform \<Rightarrow> world \<Rightarrow> login_screen \<Rightarrow> login_screen \<times> (bytes \<times> payload) option" where
  "verifyQuestions P w lg =
     (let lg0 = lg\<lparr>lg_err := []\<rparr>;
          stored = (case loadState w of None \<Rightarrow> [] | Some state \<Rightarrow> qas (auth state))
      in (case check_answers P w (lg_answers lg) stored of
            Mismatch \<Rightarrow> (lg0\<lparr>lg_err := ''One or more answers are incorrect.''\<rparr>, None)
          | Threw e \<Rightarrow> (lg0\<lparr>lg_err := ''Failed to decrypt.''\<rparr>, None)
          | AllMatch \<Rightarrow>
              (case loadState w of
                 None \<Rightarrow> (lg0\<lparr>lg_err := ''Failed to decrypt.''\<rparr>, None)
               | Some state \<Rightarrow>
                   (case getAesKeyFromPassword P w (lg_password lg)
                           (fromHex (saltEncHex (enc state))) of
                      Inl e \<Rightarrow> (lg0\<lparr>lg_err := ''Failed to decrypt.''\<rparr>, None)
                    | Inr key \<Rightarrow>
                        (case decryptJson P w (ciphertextB64 (enc state)) (ivB64 (enc state))
                                key of
                           Inl e \<Rightarrow> (lg0\<lparr>lg_err := ''Failed to decrypt.''\<rparr>, None)
                         | Inr d \<Rightarrow> (lg0, Some (key, d)))))))"

section \<open>The application state and its handlers (App)\<close>

datatype boot_state = Loading | BootSetup | BootLogin | BootApp

record app =
  boot :: boot_state
  firstName :: string
  aesKey :: "bytes option"
  data :: payload



text \<open>
  \<open>persist\<close> is asynchronous: its promise resolves or is rejected with the
  exception thrown inside. No caller awaits the promise or handles a rejection.
\<close>

datatype outcome = Resolved | Rejected js_error

definition persist :: "platform \<Rightarrow> payload \<Rightarrow> bytes option \<Rightarrow> world \<Rightarrow> outcome \<times> world" where
  "persist P newData key_opt w =
     (case loadState w of
        None \<Rightarrow> (Resolved, w)
      | Some state \<Rightarrow>
          (case key_opt of
             None \<Rightarrow> (Resolved, w)
           | Some key \<Rightarrow>
               (case encryptJson P newData key w of
                  (Inl e, w1) \<Rightarrow> (Rejected e, w1)
                | (Inr enc_res, w1) \<Rightarrow>
                    (let state' = state\<lparr>enc := (enc state)\<lparr>ivB64 := er_iv enc_res,
                                         ciphertextB64 := er_ciphertext enc_res\<rparr>\<rparr>
                     in (case saveState state' w1 of
                           Inl e \<Rightarrow> (Rejected e, w1)
                         | Inr w2 \<Rightarrow> (Resolved, w2))))))"

text \<open>
  \<open>newId()\<close> reads \<open>crypto.randomUUID\<close>: it throws where the global
  \<open>crypto\<close> is not bound, and returns a fresh identifier otherwise (\<open>fresh\<close>
  is that identifier). A handler calls it inside the updater it gives to
  \<open>setData\<close>; when it throws, no new data is set and \<open>persist\<close> is not
  called.
\<close>

definition newId :: "world \<Rightarrow> string \<Rightarrow> js_error + string" where
  "newId w fresh = (if crypto_bound w then Inr fresh else Inl TypeError)"

definition history_or_empty :: "payload \<Rightarrow> history_item list" where
  "history_or_empty p = (case history p of None \<Rightarrow> [] | Some h \<Rightarrow> h)"

definition currencies_or_empty :: "payload \<Rightarrow> currency list" where
  "currencies_or_empty p = (case currencies p of None \<Rightarrow> [] | Some c \<Rightarrow> c)"


text \<open>\<open>ts\<close> is what \<open>new Date().toISOString()\<close> returns at the call.\<close>

definition onAddEntry :: "platform \<Rightarrow> entry \<Rightarrow> string \<Rightarrow> string \<Rightarrow> app \<Rightarrow> world \<Rightarrow> app \<times> world" where
  "onAddEntry P ent fresh ts a w =
     (let prev = data a
      in (case newId w fresh of
            Inl e \<Rightarrow> (a, w)
          | Inr hid \<Rightarrow>
              (let nd = prev\<lparr>entries := entries prev @ [ent],
                             history := Some (history_or_empty prev @
                               [\<lparr>h_id = hid, h_ts = ts, h_type = ''entry:add'',
                                 h_entry = Some ent, h_category = None,
                                 h_removedEntriesCount = None\<rparr>])\<rparr>;
                   (r, w') = persist P nd (aesKey a) w
               in (a\<lparr>data := nd\<rparr>, w'))))"

text \<open>\<open>ok\<close> is the answer to the \<open>confirm\<close> dialog.\<close>

definition onDeleteCategory ::
  "platform \<Rightarrow> string \<Rightarrow> bool \<Rightarrow> string \<Rightarrow> string \<Rightarrow> app \<Rightarrow> world \<Rightarrow> app \<times> world" where
  "onDeleteCategory P catId ok fresh ts a w =
     (case find (\<lambda>c. c_id c = catId) (categories (data a)) of
        None \<Rightarrow> (a, w)
      | Some catNow \<Rightarrow>
          if \<not> ok then (a, w)
          else
            (let prev = data a
             in (case find (\<lambda>c. c_id c = catId) (categories prev) of
                   None \<Rightarrow> (a, w)
                 | Some cat \<Rightarrow>
                     (let entriesLeft = filter (\<lambda>e. e_categoryId e \<noteq> catId) (entries prev)
                      in (case newId w fresh of
                            Inl e \<Rightarrow> (a, w)
                          | Inr hid \<Rightarrow>
                              (let nd = prev\<lparr>categories :=
                                               filter (\<lambda>c. c_id c \<noteq> catId) (categories prev),
                                             entries := entriesLeft,
                                             history := Some (history_or_empty prev @
                                               [\<lparr>h_id = hid, h_ts = ts,
                                                 h_type = ''category:delete'',
                                                 h_entry = None, h_category = Some cat,
                                                 h_removedEntriesCount =
                                                   Some (length (entries prev)
                                                         - length entriesLeft)\<rparr>])\<rparr>;
                                   (r, w') = persist P nd (aesKey a) w
                               in (a\<lparr>data := nd\<rparr>, w')))))))"





definition number_or_zero :: "jsnum \<Rightarrow> jsnum" where
  "number_or_zero r = (case r of NaN \<Rightarrow> Num 0 | Num x \<Rightarrow> Num x)"

definition onAddCurrency :: "platform \<Rightarrow> string \<Rightarrow> jsnum \<Rightarrow> app \<Rightarrow> world \<Rightarrow> app \<times> world" where
  "onAddCurrency P code rate a w =
     (let prev = data a;
          existing = currencies_or_empty prev;
          nxt = filter (\<lambda>c. toUpperCase P (cur_code c) \<noteq> toUpperCase P code) existing @
                  [\<lparr>cur_code = toUpperCase P code, cur_rate = number_or_zero rate\<rparr>];
          nd = prev\<lparr>currencies := Some nxt\<rparr>;
          (r, w') = persist P nd (aesKey a) w
      in (a\<lparr>data := nd\<rparr>, w'))"

definition onSetBaseCurrency :: "platform \<Rightarrow> string \<Rightarrow> app \<Rightarrow> world \<Rightarrow> app \<times> world" where
  "onSetBaseCurrency P code a w =
     (let prev = data a;
          nd = prev\<lparr>baseCurrency := Some (toUpperCase P code)\<rparr>;
          (r, w') = persist P nd (aesKey a) w
      in (a\<lparr>data := nd\<rparr>, w'))"

definition string_or :: "string option \<Rightarrow> string \<Rightarrow> string" where
  "string_or s d = (case s of None \<Rightarrow> d | Some x \<Rightarrow> if x = [] then d else x)"

definition onRemoveCurrency :: "platform \<Rightarrow> string \<Rightarrow> app \<Rightarrow> world \<Rightarrow> app \<times> world" where
  "onRemoveCurrency P code a w =
     (let prev = data a;
          up = toUpperCase P code;
          base = toUpperCase P (string_or (baseCurrency prev) ''BDT'')
      in if up = base then (a, w)
         else if list_ex (\<lambda>cat. toUpperCase P (string_or (c_currency cat) base) = up)
                   (categories prev)
         then (a, w)
         else
           (let nxt = filter (\<lambda>c. toUpperCase P (cur_code c) \<noteq> up) (currencies_or_empty prev);
                nd = prev\<lparr>currencies :=
                            Some (if nxt \<noteq> [] then nxt else [\<lparr>cur_code = base, cur_rate = Num 1\<rparr>])\<rparr>;
                (r, w') = persist P nd (aesKey a) w
            in (a\<lparr>data := nd\<rparr>, w')))"

definition onDeleteEntry :: "platform \<Rightarrow> string \<Rightarrow> string \<Rightarrow> string \<Rightarrow> app \<Rightarrow> world \<Rightarrow> app \<times> world" where
  "onDeleteEntry P entryId fresh ts a w =
     (let prev = data a;
          target = find (\<lambda>x. e_id x = entryId) (entries prev)
      in (case newId w fresh of
            Inl e \<Rightarrow> (a, w)
          | Inr hid \<Rightarrow>
              (let nd = prev\<lparr>entries := filter (\<lambda>x. e_id x \<noteq> entryId) (entries prev),
                             history := Some (history_or_empty prev @
                               [\<lparr>h_id = hid, h_ts = ts, h_type = ''entry:delete'',
                                 h_entry = target, h_category = None,
                                 h_removedEntriesCount = None\<rparr>])\<rparr>;
                   (r, w') = persist P nd (aesKey a) w
               in (a\<lparr>data := nd\<rparr>, w'))))"


section \<open>The screens as one machine\<close>









section \<open>What one stored question asks of the answers\<close>

text \<open>
  The body of the loop of \<open>verifyQuestions\<close> for one stored question: it runs
  through without an exception (\<open>answer_checkable\<close>), and the hash of what was
  given equals the stored hash (\<open>answer_matches\<close>).
\<close>

definition answer_checkable :: "platform \<Rightarrow> world \<Rightarrow> (string \<rightharpoonup> string) \<Rightarrow> qa_hashed \<Rightarrow> bool" where
  "answer_checkable P w answers qa =
     (case b64decode P w (saltB64 qa) of
        Inl e \<Rightarrow> False
      | Inr salt \<Rightarrow>
          (case answer_or_empty (get_answer answers (qa_q qa)) of
             Inl e \<Rightarrow> False
           | Inr a \<Rightarrow> (case hashAnswer P w a salt of Inl e \<Rightarrow> False | Inr given \<Rightarrow> True)))"

definition answer_matches :: "platform \<Rightarrow> world \<Rightarrow> (string \<rightharpoonup> string) \<Rightarrow> qa_hashed \<Rightarrow> bool" where
  "answer_matches P w answers qa =
     (case b64decode P w (saltB64 qa) of
        Inl e \<Rightarrow> False
      | Inr salt \<Rightarrow>
          (case answer_or_empty (get_answer answers (qa_q qa)) of
             Inl e \<Rightarrow> False
           | Inr a \<Rightarrow>
               (case hashAnswer P w a salt of
                  Inl e \<Rightarrow> False
                | Inr given \<Rightarrow> given = hashB64 qa)))"

section \<open>Laws of the platform that the theorems name\<close>



definition survives_json :: "platform \<Rightarrow> payload \<Rightarrow> bool" where
  "survives_json P p =
     (utf8_decode P (utf8_encode P (json_stringify P p)) = json_stringify P p \<and>
      json_parse P (json_stringify P p) = Some p)"



section \<open>A small concrete platform\<close>

text \<open>
  The theorems below hold for every platform; this one instantiates them. Its key
  derivation appends the salt to the password; its digest is the first 32 bytes of the
  input padded with \<open>x\<close>; its cipher appends a tag of 16 bytes made of key and nonce
  and checks it on the way back; its base64 is the identity; its JSON writes the initial
  payload as \<open>init\<close> and any other payload as the names of its categories, and
  reads a text other than \<open>init\<close> as the payload with one category of that name.
\<close>

definition named_payload :: "string \<Rightarrow> payload" where
  "named_payload s =
     initialData\<lparr>categories :=
       [\<lparr>c_id = ''c1'', c_name = s, c_amount = Num 0, c_currency = None, c_remarks = None\<rparr>]\<rparr>"

definition demo_stringify :: "payload \<Rightarrow> string" where
  "demo_stringify p = (if p = initialData then ''init'' else concat (map c_name (categories p)))"

definition demo_parse :: "string \<Rightarrow> payload option" where
  "demo_parse s = (if s = ''init'' then Some initialData else Some (named_payload s))"

definition demo_digest :: "bytes \<Rightarrow> bytes" where
  "demo_digest b = take 32 (b @ replicate 32 120)"

definition demo_tag :: "bytes \<Rightarrow> bytes \<Rightarrow> bytes" where
  "demo_tag k iv = take 16 (k @ iv @ replicate 16 0)"

definition demo_encrypt :: "bytes \<Rightarrow> bytes \<Rightarrow> bytes \<Rightarrow> bytes" where
  "demo_encrypt k iv m = m @ demo_tag k iv"

definition demo_decrypt :: "bytes \<Rightarrow> bytes \<Rightarrow> bytes \<Rightarrow> bytes option" where
  "demo_decrypt k iv c =
     (if 16 \<le> length c \<and> drop (length c - 16) c = demo_tag k iv
      then Some (take (length c - 16) c)
      else None)"

definition demo_platform :: platform where
  "demo_platform =
     \<lparr>deriveBits = (\<lambda>km salt iterations nbits. km @ salt),
      sha256_digest = demo_digest,
      aes_gcm_encrypt = demo_encrypt,
      aes_gcm_decrypt = demo_decrypt,
      utf8_encode = charCodes,
      utf8_decode = fromCharCode,
      json_stringify = demo_stringify,
      json_parse = demo_parse,
      btoa = (\<lambda>s. s),
      atob = Some,
      trim = (\<lambda>s. s),
      toLowerCase = (\<lambda>s. s),
      toUpperCase = (\<lambda>s. s)\<rparr>"

text \<open>A browser in a secure context, with an argument limit of 120000.\<close>

definition demo_world :: world where
  "demo_world =
     \<lparr>window_defined = True, crypto_bound = True, subtle_ok = True, spread_limit = 120000,
      ls_item = None, ls_writable = True,
      entropy = (\<lambda>i. of_nat (97 + i mod 26)), drawn = 0\<rparr>"

section \<open>Concrete inputs\<close>

text \<open>
  A setup form whose first question text is a parameter, the record that
  \<open>handleSetup\<close> stores for it on the demo platform in \<open>demo_world\<close>, and the
  world it leaves.
\<close>

definition demo_form :: "string \<Rightarrow> setup_form" where
  "demo_form q1 =
     \<lparr>sf_firstName = ''Arif'', sf_password = ''pw1234'', sf_confirm = ''pw1234'',
      sf_qas = [(q1, ''north''), (''Favorite book?'', ''dune''),
                (''City you were born?'', ''dhaka''), (''First pet?'', ''tom''),
                (''Best friend?'', ''rana'')]\<rparr>"

text \<open>A browser whose \<open>window.crypto\<close> is missing.\<close>

definition demo_world_no_crypto :: world where
  "demo_world_no_crypto = demo_world\<lparr>crypto_bound := False\<rparr>"

definition demo_state :: "string \<Rightarrow> vault_state" where
  "demo_state q1 =
     \<lparr>version = 1, user = \<lparr>u_firstName = ''Arif''\<rparr>,
      auth =
        \<lparr>saltPwdHex = ''6162636465666768696a6b6c6d6e6f70'',
         verifierHex = ''7077313233346162636465666768696a6b6c6d6e6f70'',
         qas =
           [\<lparr>qa_q = q1, saltB64 = ''ghijklmnopqrstuv'',
             hashB64 = ''northghijklmnopqrstuvxxxxxxxxxxx''\<rparr>,
            \<lparr>qa_q = ''Favorite book?'', saltB64 = ''wxyzabcdefghijkl'',
             hashB64 = ''dunewxyzabcdefghijklxxxxxxxxxxxx''\<rparr>,
            \<lparr>qa_q = ''City you were born?'', saltB64 = ''mnopqrstuvwxyzab'',
             hashB64 = ''dhakamnopqrstuvwxyzabxxxxxxxxxxx''\<rparr>,
            \<lparr>qa_q = ''First pet?'', saltB64 = ''cdefghijklmnopqr'',
             hashB64 = ''tomcdefghijklmnopqrxxxxxxxxxxxxx''\<rparr>,
            \<lparr>qa_q = ''Best friend?'', saltB64 = ''stuvwxyzabcdefgh'',
             hashB64 = ''ranastuvwxyzabcdefghxxxxxxxxxxxx''\<rparr>]\<rparr>,
      enc =
        \<lparr>saltEncHex = ''7172737475767778797a616263646566'',
         ivB64 = ''ijklmnopqrst'',
         ciphertextB64 = ''initpw1234qrstuvwxyz''\<rparr>\<rparr>"

definition demo_world_setup :: "string \<Rightarrow> world" where
  "demo_world_setup q1 = demo_world\<lparr>drawn := 124, ls_item := Some (Stored (demo_state q1))\<rparr>"

definition school :: string where
  "school = ''Your first school?''"

definition demo_answers :: "string \<Rightarrow> (string \<rightharpoonup> string)" where
  "demo_answers friend =
     [school \<mapsto> ''north'', ''Favorite book?'' \<mapsto> ''dune'',
      ''City you were born?'' \<mapsto> ''dhaka'', ''First pet?'' \<mapsto> ''tom'',
      ''Best friend?'' \<mapsto> friend]"

definition demo_login :: "(string \<rightharpoonup> string) \<Rightarrow> login_screen" where
  "demo_login answers =
     \<lparr>lg_password = ''pw1234'', lg_step = 2, lg_answers = answers, lg_err = []\<rparr>"

text \<open>A payload with one category whose name has 125000 characters.\<close>

definition big_payload :: payload where
  "big_payload = named_payload (replicate 125000 CHR ''a'')"

text \<open>An unlocked application with one category and one entry, and a setup screen.\<close>

definition demo_category :: category where
  "demo_category =
     \<lparr>c_id = ''c1'', c_name = ''rent'', c_amount = Num 100, c_currency = None,
      c_remarks = None\<rparr>"

definition demo_entry :: entry where
  "demo_entry =
     \<lparr>e_id = ''e1'', e_categoryId = ''c1'', e_amount = Num 40, e_dateISO = ''2024-01-01''\<rparr>"

definition demo_app :: app where
  "demo_app =
     \<lparr>boot = BootApp, firstName = ''Arif'',
      aesKey = Some (charCodes ''pw1234qrstuvwxyzabcdef''),
      data = initialData\<lparr>categories := [demo_category], entries := [demo_entry]\<rparr>\<rparr>"


section \<open>What persistence leaves alone in the stored record\<close>



section \<open>Bytes, characters and hexadecimal text\<close>



lemma of_char_byte: "unat (word_of_nat (of_char c) :: byte) = of_char c"
  by (simp add: unat_of_nat take_bit_nat_eq_self_iff)

lemma fromCharCode_charCodes: "fromCharCode (charCodes s) = s"
  by (induction s) (simp_all add: charCodes_def fromCharCode_def of_char_byte)

lemma below_16: "(\<forall>n<16. Q (n::nat)) = (\<forall>n \<in> set [0 ..< 16]. Q n)"
  by auto

lemma hexval_hexdigit_all: "\<forall>n<16. hexval (hexdigit n) = Some n"
  unfolding below_16 by (simp add: upt_conv_Cons hexval_def hexdigit_def del: upt_Suc)

lemma hexval_hexdigit: "n < 16 \<Longrightarrow> hexval (hexdigit n) = Some n"
  using hexval_hexdigit_all by blast

lemma hexdigit_plain_all:
  "\<forall>n<16. \<not> js_whitespace (hexdigit n) \<and> hexdigit n \<noteq> CHR ''-'' \<and> hexdigit n \<noteq> CHR ''+''
     \<and> hexdigit n \<noteq> CHR ''x'' \<and> hexdigit n \<noteq> CHR ''X''"
  unfolding below_16 by (simp add: upt_conv_Cons js_whitespace_def hexdigit_def del: upt_Suc)

lemma hexdigit_plain:
  "n < 16 \<Longrightarrow> \<not> js_whitespace (hexdigit n) \<and> hexdigit n \<noteq> CHR ''-'' \<and> hexdigit n \<noteq> CHR ''+''
     \<and> hexdigit n \<noteq> CHR ''x'' \<and> hexdigit n \<noteq> CHR ''X''"
  using hexdigit_plain_all by blast

lemma parseInt16_hexdigits:
  assumes "i < 16" "j < 16"
  shows "parseInt16 [hexdigit i, hexdigit j] = Some (int (16 * i + j))"
  using hexdigit_plain [OF assms(1)] hexdigit_plain [OF assms(2)]
    hexval_hexdigit [OF assms(1)] hexval_hexdigit [OF assms(2)]
  by (simp add: parseInt16_def hexdigits_value_def)

lemma toHex_byte:
  "padStart2 (toString16 (unat (b::byte))) = [hexdigit (unat b div 16), hexdigit (unat b mod 16)]"
proof (cases "unat b < 16")
  case True
  then show ?thesis by (simp add: padStart2_def toString16_def hexdigit_def)
next
  case False
  then show ?thesis by (simp add: padStart2_def toString16_def)
qed

lemma toHex_Cons:
  "toHex (b # buf) = hexdigit (unat b div 16) # hexdigit (unat b mod 16) # toHex buf"
  by (simp add: toHex_def toHex_byte)

lemma fromHex_Cons2: "fromHex (c # d # rest) = to_uint8 (parseInt16 [c, d]) # fromHex rest"
proof -
  have "[0 ..< Suc (length rest div 2)] = 0 # map Suc [0 ..< length rest div 2]"
    by (simp add: upt_conv_Cons map_Suc_upt del: upt_Suc)
  then show ?thesis
    by (simp add: fromHex_def substr_def comp_def)
qed

text \<open>Reading back the hexadecimal text of a buffer gives the buffer.\<close>

lemma fromHex_toHex: "fromHex (toHex buf) = buf"
proof (induction buf)
  case Nil
  show ?case by (simp add: fromHex_def toHex_def)
next
  case (Cons b buf)
  have lt: "unat b div 16 < 16" "unat b mod 16 < 16"
    using unsigned_less [of b, where 'a = nat] by (simp_all add: less_mult_imp_div_less)
  show ?case
    by (simp add: toHex_Cons fromHex_Cons2 parseInt16_hexdigits [OF lt] to_uint8_def Cons.IH
        del: of_nat_add of_nat_mult)
qed

section \<open>Encryption and decryption\<close>

lemma b64encode_Inr:
  assumes "window_defined w" "length buf \<le> spread_limit w"
  shows "b64encode P w buf = Inr (btoa P (fromCharCode buf))"
  using assms by (simp add: b64encode_def)

lemma b64encode_too_long:
  assumes "window_defined w" "spread_limit w < length buf"
  shows "b64encode P w buf = Inl RangeError"
  using assms by (simp add: b64encode_def)





lemma demo_fields:
  "deriveBits demo_platform = (\<lambda>km salt iterations nbits. km @ salt)"
  "sha256_digest demo_platform = demo_digest"
  "aes_gcm_encrypt demo_platform = demo_encrypt"
  "aes_gcm_decrypt demo_platform = demo_decrypt"
  "utf8_encode demo_platform = charCodes"
  "utf8_decode demo_platform = fromCharCode"
  "json_stringify demo_platform = demo_stringify"
  "json_parse demo_platform = demo_parse"
  "btoa demo_platform = (\<lambda>s. s)"
  "atob demo_platform = Some"
  "trim demo_platform = (\<lambda>s. s)"
  "toLowerCase demo_platform = (\<lambda>s. s)"
  "toUpperCase demo_platform = (\<lambda>s. s)"
  by (simp_all add: demo_platform_def)

lemma demo_world_fields:
  "window_defined demo_world" "crypto_bound demo_world" "subtle_ok demo_world"
  "spread_limit demo_world = 120000" "ls_writable demo_world" "ls_item demo_world = None"
  "drawn demo_world = 0" "subtle_available demo_world" "crypto_available demo_world"
  by (simp_all add: demo_world_def subtle_available_def crypto_available_def)

lemma length_demo_tag: "length (demo_tag k iv) = 16"
  by (simp add: demo_tag_def)




lemma named_payload_not_initial: "named_payload s \<noteq> initialData"
  by (simp add: named_payload_def initialData_def)

lemma demo_stringify_named: "demo_stringify (named_payload s) = s"
  by (simp add: demo_stringify_def named_payload_not_initial) (simp add: named_payload_def)

lemma demo_json_big: "survives_json demo_platform big_payload"
proof -
  have "replicate 125000 CHR ''a'' \<noteq> ''init''"
  proof
    assume "replicate 125000 CHR ''a'' = ''init''"
    then have "length (replicate 125000 CHR ''a'') = length ''init''" by (rule arg_cong)
    then show False by simp
  qed
  then show ?thesis
    by (simp add: survives_json_def demo_fields big_payload_def demo_stringify_named
        demo_parse_def fromCharCode_charCodes)
qed

text \<open>
  Claim C1 at an input where the code parts from it. The payload has one category whose
  name is 125000 characters long; it survives JSON serialization. In a browser whose
  engine takes at most 120000 arguments, \<open>encryptJson\<close> draws its nonce, encrypts,
  and then throws a RangeError in \<open>b64encode\<close>, where
  \<open>String.fromCharCode(...bytes)\<close> spreads the ciphertext: there is no ciphertext
  to decrypt.
\<close>

theorem encryptJson_large_payload:
  "survives_json demo_platform big_payload \<and>
   window_defined demo_world \<and> subtle_available demo_world \<and>
   spread_limit demo_world = 120000 \<and>
   fst (encryptJson demo_platform big_payload (charCodes ''0123456789abcdef'') demo_world)
     = Inl RangeError"
proof -
  have l: "length (demo_encrypt key iv (charCodes (demo_stringify big_payload))) = 125016"
    for key iv
    by (simp add: demo_encrypt_def length_demo_tag big_payload_def demo_stringify_named
        charCodes_def)
  have r: "length (fst (randBytes demo_world 12)) = 12"
    by (simp add: randBytes_def)
  have "fst (encryptJson demo_platform big_payload (charCodes ''0123456789abcdef'') demo_world)
     = Inl RangeError"
    by (simp add: encryptJson_def Let_def split_beta demo_world_fields demo_fields
        b64encode_def r l)
  then show ?thesis
    by (simp add: demo_json_big demo_world_fields)
qed

section \<open>Random bytes without a secure random source\<close>




lemma randBytes_zero:
  assumes "\<not> crypto_available w"
  shows "randBytes w n = (replicate n 0, w)"
  using assms by (simp add: randBytes_def)

lemma encryptJson_world_without_crypto:
  assumes "\<not> crypto_available w"
  shows "snd (encryptJson P obj k w) = w"
  using assms
  by (simp add: encryptJson_def randBytes_zero Let_def split: sum.splits)

lemma hashQas_world_without_crypto:
  assumes "\<not> crypto_available w"
  shows "snd (hashQas P qs w) = w"
  using assms
  by (induction qs) (auto simp: randBytes_zero split: sum.splits prod.splits)

lemma saveState_without_crypto:
  assumes "\<not> crypto_available w" "subtle_available w"
  shows "saveState st w = Inr w"
  using assms by (auto simp: saveState_def crypto_available_def subtle_available_def)

lemma encryptJson_pair_without_crypto:
  assumes "\<not> crypto_available w" "encryptJson P obj k w = (r, w1)"
  shows "w1 = w"
  using encryptJson_world_without_crypto [OF assms(1), of P obj k] assms(2) by simp

lemma hashQas_pair_without_crypto:
  assumes "\<not> crypto_available w" "hashQas P qs w = (r, w1)"
  shows "w1 = w"
  using hashQas_world_without_crypto [OF assms(1), of P qs] assms(2) by simp

lemma handleSetup_world_without_crypto:
  assumes "\<not> crypto_available w"
  shows "snd (handleSetup P form w) = w"
proof (cases "subtle_available w")
  case False
  then show ?thesis
    using assms by (simp add: handleSetup_def randBytes_zero pbkdf2_def)
next
  case True
  have s: "saveState st w = Inr w" for st
    using assms True by (rule saveState_without_crypto)
  show ?thesis
    using assms True
    by (simp add: handleSetup_def randBytes_zero pbkdf2_def getAesKeyFromPassword_def s
        split_beta encryptJson_world_without_crypto hashQas_world_without_crypto
        split: sum.splits)
qed

text \<open>
  Claim C9. When the secure random source is unavailable (\<open>window\<close> is undefined
  or \<open>window.crypto\<close> is falsy), \<open>randBytes n\<close> does not fail: it returns
  \<open>n\<close> zero bytes and draws nothing. \<open>encryptJson\<close> and \<open>handleSetup\<close>
  take every IV and every salt from \<open>randBytes\<close>; in that environment they draw
  nothing from the random source either, whether they go on to complete or to throw (the
  world, which counts what was drawn, is left as it was).
\<close>

theorem randBytes_without_crypto:
  assumes "\<not> crypto_available w"
  shows "randBytes w n = (replicate n 0, w) \<and>
         snd (encryptJson P obj k w) = w \<and>
         snd (handleSetup P form w) = w"
  using assms
  by (simp add: randBytes_zero encryptJson_world_without_crypto handleSetup_world_without_crypto)

theorem randBytes_without_crypto_witness:
  "\<not> crypto_available demo_world_no_crypto \<and>
   randBytes demo_world_no_crypto 16 = (replicate 16 0, demo_world_no_crypto) \<and>
   length (fst (randBytes demo_world_no_crypto 16)) = 16 \<and>
   snd (encryptJson demo_platform initialData (charCodes ''0123456789abcdef'')
          demo_world_no_crypto) = demo_world_no_crypto \<and>
   snd (handleSetup demo_platform (demo_form school) demo_world_no_crypto)
     = demo_world_no_crypto"
proof -
  have c: "\<not> crypto_available demo_world_no_crypto"
    by (simp add: crypto_available_def demo_world_no_crypto_def demo_world_def)
  note t = randBytes_without_crypto [OF c, of 16 demo_platform initialData
      "charCodes ''0123456789abcdef''" "demo_form school"]
  have l: "length (fst (randBytes demo_world_no_crypto 16)) = 16"
    using t by simp
  show ?thesis
    using c t l by blast
qed

section \<open>Evaluating the concrete platform\<close>

lemmas bytes_eval = fromCharCode_def charCodes_def char_of_def bit_Suc_0_iff

lemma toHex_Nil: "toHex [] = []"
  by (simp add: toHex_def)

lemma demo_drawn_fields:
  "window_defined (demo_world\<lparr>drawn := d\<rparr>)" "subtle_available (demo_world\<lparr>drawn := d\<rparr>)"
  "crypto_available (demo_world\<lparr>drawn := d\<rparr>)"
  "spread_limit (demo_world\<lparr>drawn := d\<rparr>) = 120000"
  "entropy (demo_world\<lparr>drawn := d\<rparr>) = (\<lambda>i. of_nat (97 + i mod 26))"
  "drawn (demo_world\<lparr>drawn := d\<rparr>) = d"
  by (simp_all add: demo_world_def subtle_available_def crypto_available_def)

lemma demo_randBytes:
  "randBytes (demo_world\<lparr>drawn := d\<rparr>) n =
     (map (\<lambda>i. of_nat (97 + i mod 26)) [d ..< d + n], demo_world\<lparr>drawn := d + n\<rparr>)"
  by (simp add: randBytes_def demo_drawn_fields)

lemma demo_world_drawn: "demo_world = demo_world\<lparr>drawn := 0\<rparr>"
  by (simp add: demo_world_def)

lemma demo_b64encode:
  assumes "window_defined w" "length buf \<le> spread_limit w"
  shows "b64encode demo_platform w buf = Inr (fromCharCode buf)"
  using assms by (simp add: b64encode_def demo_fields)

lemma length_demo_digest: "length (demo_digest b) = 32"
  by (simp add: demo_digest_def)

lemma demo_hashAnswer:
  assumes "window_defined w" "subtle_available w" "32 \<le> spread_limit w"
  shows "hashAnswer demo_platform w a salt = Inr (fromCharCode (demo_digest (charCodes a @ salt)))"
  using assms
  by (simp add: hashAnswer_def sha256_def demo_fields demo_b64encode length_demo_digest)

lemma demo_pbkdf2:
  assumes "subtle_available w"
  shows "pbkdf2 demo_platform w pw salt n len = Inr (charCodes pw @ salt)"
  using assms by (simp add: pbkdf2_def demo_fields)

lemma demo_hashQas:
  "hashQas demo_platform [(q1, ''north''), (''Favorite book?'', ''dune''),
       (''City you were born?'', ''dhaka''), (''First pet?'', ''tom''),
       (''Best friend?'', ''rana'')] (demo_world\<lparr>drawn := 32\<rparr>) =
     (Inr (qas (auth (demo_state q1))), demo_world\<lparr>drawn := 112\<rparr>)"
proof -
  have h: "hashAnswer demo_platform (demo_world\<lparr>drawn := d\<rparr>) a salt =
             Inr (fromCharCode (demo_digest (charCodes a @ salt)))" for d a salt
    by (rule demo_hashAnswer) (simp_all add: demo_drawn_fields)
  have b: "length buf \<le> 120000 \<Longrightarrow>
           b64encode demo_platform (demo_world\<lparr>drawn := d\<rparr>) buf = Inr (fromCharCode buf)"
    for d buf
    by (rule demo_b64encode) (simp_all add: demo_drawn_fields)
  show ?thesis
    by (simp add: demo_randBytes h b demo_state_def demo_digest_def bytes_eval)
       (simp add: numeral_eq_Suc)
qed

lemma fromCharCode_append: "fromCharCode (xs @ ys) = fromCharCode xs @ fromCharCode ys"
  by (simp add: fromCharCode_def)

lemma demo_encrypt_initial:
  "encryptJson demo_platform initialData k (demo_world\<lparr>drawn := 112\<rparr>) =
     (Inr \<lparr>er_iv = ''ijklmnopqrst'',
           er_ciphertext = ''init'' @ fromCharCode (demo_tag k (charCodes ''ijklmnopqrst''))\<rparr>,
      demo_world\<lparr>drawn := 124\<rparr>)"
proof -
  have i: "map (\<lambda>i. of_nat (97 + i mod 26) :: byte) [112 ..< 112 + 12]
             = charCodes ''ijklmnopqrst''"
    by (simp add: charCodes_def)
  have b: "length buf \<le> 120000 \<Longrightarrow>
           b64encode demo_platform (demo_world\<lparr>drawn := 112\<rparr>) buf = Inr (fromCharCode buf)"
    for buf
    by (rule demo_b64encode) (simp_all add: demo_drawn_fields)
  have bi: "b64encode demo_platform (demo_world\<lparr>drawn := 112\<rparr>) (charCodes ''ijklmnopqrst'')
              = Inr ''ijklmnopqrst''"
  proof -
    have "length (charCodes ''ijklmnopqrst'') \<le> 120000"
      by (simp add: charCodes_def)
    then show ?thesis
      by (simp only: b fromCharCode_charCodes)
  qed
  have bc: "b64encode demo_platform (demo_world\<lparr>drawn := 112\<rparr>)
              (demo_encrypt k (charCodes ''ijklmnopqrst'') (charCodes ''init''))
            = Inr (''init'' @ fromCharCode (demo_tag k (charCodes ''ijklmnopqrst'')))"
  proof -
    have "length (demo_encrypt k (charCodes ''ijklmnopqrst'') (charCodes ''init'')) \<le> 120000"
      by (simp add: demo_encrypt_def length_demo_tag charCodes_def)
    then show ?thesis
      by (simp only: b demo_encrypt_def fromCharCode_append fromCharCode_charCodes)
  qed
  have s: "charCodes (demo_stringify initialData) = charCodes ''init''"
    by (simp add: demo_stringify_def)
  show ?thesis
    unfolding encryptJson_def demo_randBytes i
    by (simp only: Let_def split_conv demo_drawn_fields if_True demo_fields s bi bc sum.case)
       simp
qed

text \<open>Setup on the demo platform stores \<open>demo_state\<close>.\<close>

lemma demo_setup:
  assumes "q1 \<noteq> []"
  shows "handleSetup demo_platform (demo_form q1) demo_world = (setup_done, demo_world_setup q1)"
proof -
  have f: "sf_firstName (demo_form q1) = ''Arif''" "sf_password (demo_form q1) = ''pw1234''"
    "sf_confirm (demo_form q1) = ''pw1234''"
    "sf_qas (demo_form q1) = [(q1, ''north''), (''Favorite book?'', ''dune''),
                (''City you were born?'', ''dhaka''), (''First pet?'', ''tom''),
                (''Best friend?'', ''rana'')]"
    by (simp_all add: demo_form_def)
  have p: "pbkdf2 demo_platform (demo_world\<lparr>drawn := d\<rparr>) pw salt n len = Inr (charCodes pw @ salt)"
    for d pw salt n len
    by (rule demo_pbkdf2) (simp add: demo_drawn_fields)
  have s: "saveState st (demo_world\<lparr>drawn := 124\<rparr>) =
             Inr (demo_world\<lparr>drawn := 124, ls_item := Some (Stored st)\<rparr>)" for st
    by (simp add: saveState_def demo_world_def)
  have "handleSetup demo_platform (demo_form q1) (demo_world\<lparr>drawn := 0\<rparr>) =
          (setup_done, demo_world\<lparr>drawn := 124, ls_item := Some (Stored (demo_state q1))\<rparr>)"
    apply (simp add: handleSetup_def f assms demo_randBytes p getAesKeyFromPassword_def
        demo_hashQas demo_encrypt_initial s del: hashQas.simps)
    apply (simp add: demo_state_def demo_tag_def bytes_eval toHex_Cons toHex_Nil hexdigit_def
        upt_conv_Cons del: upt_Suc)
    done
  then show ?thesis
    by (simp only: demo_world_drawn [symmetric] demo_world_setup_def)
qed

section \<open>Login step 1: the password\<close>

lemma demo_world_setup_facts:
  "window_defined (demo_world_setup q1)" "ls_writable (demo_world_setup q1)"
  "crypto_available (demo_world_setup q1)" "subtle_available (demo_world_setup q1)"
  "spread_limit (demo_world_setup q1) = 120000"
  "loadState (demo_world_setup q1) = Some (demo_state q1)"
  by (simp_all add: demo_world_setup_def demo_world_def loadState_def crypto_available_def
      subtle_available_def)

lemma demo_salt_hex:
  "fromHex ''6162636465666768696a6b6c6d6e6f70'' = charCodes ''abcdefghijklmnop''"
  "fromHex ''7172737475767778797a616263646566'' = charCodes ''qrstuvwxyzabcdef''"
proof -
  have "toHex (charCodes ''abcdefghijklmnop'') = ''6162636465666768696a6b6c6d6e6f70''"
    by (simp add: charCodes_def toHex_Cons toHex_Nil hexdigit_def)
  then show "fromHex ''6162636465666768696a6b6c6d6e6f70'' = charCodes ''abcdefghijklmnop''"
    using fromHex_toHex [of "charCodes ''abcdefghijklmnop''"] by simp
  have "toHex (charCodes ''qrstuvwxyzabcdef'') = ''7172737475767778797a616263646566''"
    by (simp add: charCodes_def toHex_Cons toHex_Nil hexdigit_def)
  then show "fromHex ''7172737475767778797a616263646566'' = charCodes ''qrstuvwxyzabcdef''"
    using fromHex_toHex [of "charCodes ''qrstuvwxyzabcdef''"] by simp
qed

lemma demo_state_fields:
  "saltPwdHex (auth (demo_state q1)) = ''6162636465666768696a6b6c6d6e6f70''"
  "verifierHex (auth (demo_state q1)) = ''7077313233346162636465666768696a6b6c6d6e6f70''"
  "saltEncHex (enc (demo_state q1)) = ''7172737475767778797a616263646566''"
  "ivB64 (enc (demo_state q1)) = ''ijklmnopqrst''"
  "ciphertextB64 (enc (demo_state q1)) = ''initpw1234qrstuvwxyz''"
  by (simp_all add: demo_state_def)

lemma toHex_append: "toHex (xs @ ys) = toHex xs @ toHex ys"
  by (simp add: toHex_def)

lemma demo_derive_wrong:
  "pbkdf2 demo_platform (demo_world_setup q1) ''wrongpw''
     (fromHex (saltPwdHex (auth (demo_state q1)))) 210000 32
     = Inr (charCodes ''wrongpw'' @ charCodes ''abcdefghijklmnop'')"
  by (simp add: demo_pbkdf2 demo_world_setup_facts demo_state_fields demo_salt_hex)

lemma demo_verifier_wrong:
  "toHex (charCodes ''wrongpw'' @ charCodes ''abcdefghijklmnop'')
     \<noteq> verifierHex (auth (demo_state q1))"
  by (simp add: demo_state_fields toHex_append)
     (simp add: charCodes_def toHex_Cons hexdigit_def)

text \<open>
  Claim C3, as the code has it. For every password whose derived verifier differs from
  the stored one, \<open>verifyPassword\<close> leaves the step as it was (at step 1 the session
  stays at step 1) and reports the message \<open>Invalid password.\<close>, which names the
  password as the factor that failed.
\<close>

theorem verifyPassword_wrong_password:
  assumes "loadState w = Some st"
    and "pbkdf2 P w (lg_password lg) (fromHex (saltPwdHex (auth st))) 210000 32 = Inr bits"
    and "toHex bits \<noteq> verifierHex (auth st)"
  shows "verifyPassword P w lg = lg\<lparr>lg_err := ''Invalid password.''\<rparr> \<and>
         lg_step (verifyPassword P w lg) = lg_step lg"
  using assms by (simp add: verifyPassword_def)

theorem verifyPassword_wrong_password_witness:
  "loadState (demo_world_setup school) = Some (demo_state school) \<and>
   pbkdf2 demo_platform (demo_world_setup school) ''wrongpw''
     (fromHex (saltPwdHex (auth (demo_state school)))) 210000 32
     = Inr (charCodes ''wrongpw'' @ charCodes ''abcdefghijklmnop'') \<and>
   toHex (charCodes ''wrongpw'' @ charCodes ''abcdefghijklmnop'')
     \<noteq> verifierHex (auth (demo_state school)) \<and>
   verifyPassword demo_platform (demo_world_setup school) (login_init\<lparr>lg_password := ''wrongpw''\<rparr>)
     = \<lparr>lg_password = ''wrongpw'', lg_step = 1, lg_answers = Map.empty,
        lg_err = ''Invalid password.''\<rparr>"
proof -
  have l: "loadState (demo_world_setup school) = Some (demo_state school)"
    by (rule demo_world_setup_facts)
  have d: "pbkdf2 demo_platform (demo_world_setup school)
             (lg_password (login_init\<lparr>lg_password := ''wrongpw''\<rparr>))
             (fromHex (saltPwdHex (auth (demo_state school)))) 210000 32
           = Inr (charCodes ''wrongpw'' @ charCodes ''abcdefghijklmnop'')"
    by (simp add: demo_derive_wrong)
  note n = demo_verifier_wrong [of school]
  show ?thesis
    using l n demo_derive_wrong [of school] verifyPassword_wrong_password [OF l d n]
    by (simp add: login_init_def)
qed

section \<open>Login step 2: the answers\<close>

lemma demo_b64decode:
  assumes "window_defined w"
  shows "b64decode demo_platform w s = Inr (charCodes s)"
  using assms by (simp add: b64decode_def demo_fields)

lemma demo_hash_text:
  "fromCharCode (demo_digest (charCodes a @ charCodes s)) = take 32 (a @ s @ replicate 32 CHR ''x'')"
proof -
  have "fromCharCode (replicate 32 (120 :: byte)) = replicate 32 CHR ''x''"
    by (simp add: bytes_eval)
  then show ?thesis
    by (simp only: demo_digest_def fromCharCode_def take_map [symmetric] map_append
        fromCharCode_charCodes [unfolded fromCharCode_def] append_assoc)
qed

lemma demo_check_step:
  assumes "window_defined w" "subtle_available w" "32 \<le> spread_limit w"
  shows "check_answers demo_platform w answers (qa # rest) =
     (case answer_or_empty (get_answer answers (qa_q qa)) of
        Inl e \<Rightarrow> Threw e
      | Inr a \<Rightarrow> if take 32 (a @ saltB64 qa @ replicate 32 CHR ''x'') \<noteq> hashB64 qa then Mismatch
                 else check_answers demo_platform w answers rest)"
  by (simp add: demo_b64decode [OF assms(1)] demo_hashAnswer [OF assms] demo_hash_text
      split: sum.splits)

lemma demo_answer_checks:
  assumes "window_defined w" "subtle_available w" "32 \<le> spread_limit w"
  shows "answer_matches demo_platform w answers qa =
           (case answer_or_empty (get_answer answers (qa_q qa)) of
              Inl e \<Rightarrow> False
            | Inr a \<Rightarrow> take 32 (a @ saltB64 qa @ replicate 32 CHR ''x'') = hashB64 qa)"
  by (simp add: answer_matches_def demo_b64decode [OF assms(1)] demo_hashAnswer [OF assms]
      demo_hash_text split: sum.splits)

lemma demo_qas:
  "qas (auth (demo_state q1)) =
     [\<lparr>qa_q = q1, saltB64 = ''ghijklmnopqrstuv'',
       hashB64 = ''northghijklmnopqrstuvxxxxxxxxxxx''\<rparr>,
      \<lparr>qa_q = ''Favorite book?'', saltB64 = ''wxyzabcdefghijkl'',
       hashB64 = ''dunewxyzabcdefghijklxxxxxxxxxxxx''\<rparr>,
      \<lparr>qa_q = ''City you were born?'', saltB64 = ''mnopqrstuvwxyzab'',
       hashB64 = ''dhakamnopqrstuvwxyzabxxxxxxxxxxx''\<rparr>,
      \<lparr>qa_q = ''First pet?'', saltB64 = ''cdefghijklmnopqr'',
       hashB64 = ''tomcdefghijklmnopqrxxxxxxxxxxxxx''\<rparr>,
      \<lparr>qa_q = ''Best friend?'', saltB64 = ''stuvwxyzabcdefgh'',
       hashB64 = ''ranastuvwxyzabcdefghxxxxxxxxxxxx''\<rparr>]"
  by (simp add: demo_state_def)

lemma demo_world_setup_checks:
  "window_defined (demo_world_setup q1)" "subtle_available (demo_world_setup q1)"
  "32 \<le> spread_limit (demo_world_setup q1)"
  by (simp_all add: demo_world_setup_facts)

lemmas demo_step = demo_check_step [OF demo_world_setup_checks]

lemmas demo_match = demo_answer_checks [OF demo_world_setup_checks]

lemma check_answers_AllMatch:
  "check_answers P w answers stored = AllMatch \<Longrightarrow> list_all (answer_matches P w answers) stored"
  by (induction stored) (auto simp: answer_matches_def split: sum.splits if_splits)

lemma check_answers_Mismatch:
  assumes "list_all (answer_checkable P w answers) stored"
    and "list_ex (\<lambda>qa. \<not> answer_matches P w answers qa) stored"
  shows "check_answers P w answers stored = Mismatch"
  using assms
  by (induction stored)
     (auto simp: answer_matches_def answer_checkable_def split: sum.splits if_splits)

text \<open>\<open>verifyQuestions\<close> reaches \<open>onUnlock\<close> only when every stored hash is matched.\<close>

lemma verifyQuestions_unlock_only_if:
  assumes "snd (verifyQuestions P w lg) = Some u"
  shows "\<exists>st. loadState w = Some st \<and> list_all (answer_matches P w (lg_answers lg)) (qas (auth st))"
proof (cases "loadState w")
  case None
  then show ?thesis
    using assms by (simp add: verifyQuestions_def)
next
  case (Some st)
  have "check_answers P w (lg_answers lg) (qas (auth st)) = AllMatch"
    using assms Some
    by (cases "check_answers P w (lg_answers lg) (qas (auth st))")
       (simp_all add: verifyQuestions_def)
  then show ?thesis
    using Some by (simp add: check_answers_AllMatch)
qed

text \<open>
  When every stored question can be hashed (each answer is a string or missing under a
  text that \<open>Object.prototype\<close> does not name), one unmatched hash gives the one
  message of the loop.
\<close>

lemma verifyQuestions_mismatch:
  assumes "loadState w = Some st"
    and "list_all (answer_checkable P w (lg_answers lg)) (qas (auth st))"
    and "list_ex (\<lambda>qa. \<not> answer_matches P w (lg_answers lg) qa) (qas (auth st))"
  shows "verifyQuestions P w lg = (lg\<lparr>lg_err := ''One or more answers are incorrect.''\<rparr>, None)"
  using assms(1) check_answers_Mismatch [OF assms(2,3)]
  by (simp add: verifyQuestions_def)

lemma demo_check_wrong_friend:
  "check_answers demo_platform (demo_world_setup school) (demo_answers ''rahim'')
     (qas (auth (demo_state school))) = Mismatch"
  apply (simp add: demo_qas demo_step demo_answers_def school_def
      get_answer_def answer_or_empty_def del: check_answers.simps)
  apply (simp add: numeral_eq_Suc)?
  done

text \<open>
  Against claim C3 as the spec words it: the message is not generic. On the vault that
  setup stored for the demo form, a wrong password at step 1 is reported as
  \<open>Invalid password.\<close> and a wrong answer at step 2 as
  \<open>One or more answers are incorrect.\<close>; the message tells which factor failed.
\<close>

theorem error_message_names_factor:
  "lg_step (verifyPassword demo_platform (demo_world_setup school)
              (login_init\<lparr>lg_password := ''wrongpw''\<rparr>)) = 1 \<and>
   lg_err (verifyPassword demo_platform (demo_world_setup school)
              (login_init\<lparr>lg_password := ''wrongpw''\<rparr>)) = ''Invalid password.'' \<and>
   lg_err (fst (verifyQuestions demo_platform (demo_world_setup school)
              (demo_login (demo_answers ''rahim''))))
     = ''One or more answers are incorrect.'' \<and>
   lg_err (verifyPassword demo_platform (demo_world_setup school)
              (login_init\<lparr>lg_password := ''wrongpw''\<rparr>))
     \<noteq> lg_err (fst (verifyQuestions demo_platform (demo_world_setup school)
              (demo_login (demo_answers ''rahim''))))"
proof -
  have p: "verifyPassword demo_platform (demo_world_setup school)
              (login_init\<lparr>lg_password := ''wrongpw''\<rparr>)
           = \<lparr>lg_password = ''wrongpw'', lg_step = 1, lg_answers = Map.empty,
              lg_err = ''Invalid password.''\<rparr>"
    using demo_verifier_wrong [of school] demo_derive_wrong [of school]
    by (simp add: verifyPassword_def demo_world_setup_facts login_init_def)
  have q: "lg_err (fst (verifyQuestions demo_platform (demo_world_setup school)
              (demo_login (demo_answers ''rahim'')))) = ''One or more answers are incorrect.''"
    by (simp add: verifyQuestions_def demo_world_setup_facts demo_check_wrong_friend
        demo_login_def)
  show ?thesis
    unfolding p q by simp
qed

section \<open>A question named like a member of Object.prototype\<close>

lemma missing_answer_is_empty:
  assumes "answers k = None" "k \<notin> set object_prototype_keys"
  shows "answer_or_empty (get_answer answers k) = Inr []"
  using assms by (simp add: get_answer_def answer_or_empty_def)

lemma demo_setup_constructor:
  "handleSetup demo_platform (demo_form ''constructor'') demo_world =
     (\<lparr>sr_err = [], sr_completed = True, sr_thrown = None\<rparr>, demo_world_setup ''constructor'')"
  by (simp add: demo_setup setup_done_def)

lemma demo_unanswered:
  "(demo_answers ''rana'') ''constructor'' = None"
  "get_answer (demo_answers ''rana'') ''constructor'' = Inherited"
  by (simp_all add: get_answer_def demo_answers_def school_def object_prototype_keys_def)

lemma demo_check_unanswered:
  "check_answers demo_platform (demo_world_setup ''constructor'') (demo_answers ''rana'')
     (qas (auth (demo_state ''constructor''))) = Threw TypeError"
  by (simp add: demo_qas demo_step demo_unanswered answer_or_empty_def
      del: check_answers.simps)

lemma demo_verify_unanswered:
  "verifyQuestions demo_platform (demo_world_setup ''constructor'')
       (demo_login (demo_answers ''rana''))
     = (\<lparr>lg_password = ''pw1234'', lg_step = 2, lg_answers = demo_answers ''rana'',
         lg_err = ''Failed to decrypt.''\<rparr>, None)"
  by (simp add: verifyQuestions_def demo_world_setup_facts demo_login_def demo_check_unanswered)

text \<open>
  Claim C4 at the input where the code parts from it. The vault was set up with the
  first question text \<open>constructor\<close>. With that question left unanswered and the other
  four answers right, exactly the first stored hash is unmatched and the screen says
  \<open>Failed to decrypt.\<close>; with the first four answers right and the fifth wrong,
  exactly the fifth stored hash is unmatched and the screen says
  \<open>One or more answers are incorrect.\<close> Both checks fail, and the message tells
  the two questions apart.
\<close>

theorem wrong_answer_message_tells_question:
  "loadState (demo_world_setup ''constructor'') = Some (demo_state ''constructor'') \<and>
   map (answer_matches demo_platform (demo_world_setup ''constructor'') (demo_answers ''rana''))
       (qas (auth (demo_state ''constructor''))) = [False, True, True, True, True] \<and>
   verifyQuestions demo_platform (demo_world_setup ''constructor'')
       (demo_login (demo_answers ''rana''))
     = (\<lparr>lg_password = ''pw1234'', lg_step = 2, lg_answers = demo_answers ''rana'',
         lg_err = ''Failed to decrypt.''\<rparr>, None) \<and>
   map (answer_matches demo_platform (demo_world_setup ''constructor'')
          ((demo_answers ''rahim'')(''constructor'' \<mapsto> ''north'')))
       (qas (auth (demo_state ''constructor''))) = [True, True, True, True, False] \<and>
   verifyQuestions demo_platform (demo_world_setup ''constructor'')
       (demo_login ((demo_answers ''rahim'')(''constructor'' \<mapsto> ''north'')))
     = (\<lparr>lg_password = ''pw1234'', lg_step = 2,
         lg_answers = (demo_answers ''rahim'')(''constructor'' \<mapsto> ''north''),
         lg_err = ''One or more answers are incorrect.''\<rparr>, None)"
proof -
  have l: "loadState (demo_world_setup ''constructor'') = Some (demo_state ''constructor'')"
    by (rule demo_world_setup_facts)
  have m1: "map (answer_matches demo_platform (demo_world_setup ''constructor'')
                   (demo_answers ''rana''))
       (qas (auth (demo_state ''constructor''))) = [False, True, True, True, True]"
    apply (simp add: demo_qas demo_match demo_unanswered answer_or_empty_def)
    apply (simp add: get_answer_def demo_answers_def school_def)
    apply (simp add: numeral_eq_Suc)?
    done
  have m2: "map (answer_matches demo_platform (demo_world_setup ''constructor'')
          ((demo_answers ''rahim'')(''constructor'' \<mapsto> ''north'')))
       (qas (auth (demo_state ''constructor''))) = [True, True, True, True, False]"
    apply (simp add: demo_qas demo_match answer_or_empty_def get_answer_def demo_answers_def
        school_def)
    apply (simp add: numeral_eq_Suc)?
    done
  have c2: "check_answers demo_platform (demo_world_setup ''constructor'')
              ((demo_answers ''rahim'')(''constructor'' \<mapsto> ''north''))
              (qas (auth (demo_state ''constructor''))) = Mismatch"
    apply (simp add: demo_qas demo_step get_answer_def answer_or_empty_def demo_answers_def
        school_def del: check_answers.simps)
    apply (simp add: numeral_eq_Suc)?
    done
  have v2: "verifyQuestions demo_platform (demo_world_setup ''constructor'')
       (demo_login ((demo_answers ''rahim'')(''constructor'' \<mapsto> ''north'')))
     = (\<lparr>lg_password = ''pw1234'', lg_step = 2,
         lg_answers = (demo_answers ''rahim'')(''constructor'' \<mapsto> ''north''),
         lg_err = ''One or more answers are incorrect.''\<rparr>, None)"
    by (simp add: verifyQuestions_def demo_world_setup_facts demo_login_def c2)
  show ?thesis
    using l m1 demo_verify_unanswered m2 v2 by (intro conjI)
qed

text \<open>
  Claim C10 at the input where the code parts from it. The vault was set up with the
  first question text \<open>constructor\<close>. At step 2, with no answer typed for it (and the
  other four right), the lookup finds the inherited \<open>Object\<close> function,
  \<open>hashAnswer\<close> throws and the screen says \<open>Failed to decrypt.\<close>; with the empty
  string typed for it the empty string is hashed and compared, and the screen says
  \<open>One or more answers are incorrect.\<close>
\<close>

theorem unanswered_constructor_question:
  "handleSetup demo_platform (demo_form ''constructor'') demo_world =
     (\<lparr>sr_err = [], sr_completed = True, sr_thrown = None\<rparr>, demo_world_setup ''constructor'') \<and>
   (demo_answers ''rana'') ''constructor'' = None \<and>
   verifyQuestions demo_platform (demo_world_setup ''constructor'') (demo_login (demo_answers ''rana''))
     = (\<lparr>lg_password = ''pw1234'', lg_step = 2, lg_answers = demo_answers ''rana'',
         lg_err = ''Failed to decrypt.''\<rparr>, None) \<and>
   verifyQuestions demo_platform (demo_world_setup ''constructor'')
       (demo_login ((demo_answers ''rana'')(''constructor'' \<mapsto> [])))
     = (\<lparr>lg_password = ''pw1234'', lg_step = 2,
         lg_answers = (demo_answers ''rana'')(''constructor'' \<mapsto> []),
         lg_err = ''One or more answers are incorrect.''\<rparr>, None)"
proof -
  have c2: "check_answers demo_platform (demo_world_setup ''constructor'')
              ((demo_answers ''rana'')(''constructor'' \<mapsto> []))
              (qas (auth (demo_state ''constructor''))) = Mismatch"
    apply (simp add: demo_qas demo_step get_answer_def answer_or_empty_def
        del: check_answers.simps)
    apply (simp add: numeral_eq_Suc)?
    done
  have v2: "verifyQuestions demo_platform (demo_world_setup ''constructor'')
       (demo_login ((demo_answers ''rana'')(''constructor'' \<mapsto> [])))
     = (\<lparr>lg_password = ''pw1234'', lg_step = 2,
         lg_answers = (demo_answers ''rana'')(''constructor'' \<mapsto> []),
         lg_err = ''One or more answers are incorrect.''\<rparr>, None)"
    by (simp add: verifyQuestions_def demo_world_setup_facts demo_login_def c2)
  show ?thesis
    using demo_setup_constructor demo_unanswered(1) demo_verify_unanswered v2 by (intro conjI)
qed

section \<open>The history list\<close>

lemma removed_count:
  "length xs - length (filter (\<lambda>e. e_categoryId e \<noteq> catId) xs)
     = length (filter (\<lambda>e. e_categoryId e = catId) xs)"
  using sum_length_filter_compl [of "\<lambda>e. e_categoryId e = catId" xs] by simp

lemma onAddEntry_history:
  assumes "crypto_bound w"
  shows "history (data (fst (onAddEntry P ent fresh ts a w))) =
           Some (history_or_empty (data a) @
             [\<lparr>h_id = fresh, h_ts = ts, h_type = ''entry:add'', h_entry = Some ent,
               h_category = None, h_removedEntriesCount = None\<rparr>])"
  using assms by (simp add: onAddEntry_def newId_def Let_def split_beta)

lemma onDeleteEntry_history:
  assumes "crypto_bound w"
  shows "history (data (fst (onDeleteEntry P entryId fresh ts a w))) =
           Some (history_or_empty (data a) @
             [\<lparr>h_id = fresh, h_ts = ts, h_type = ''entry:delete'',
               h_entry = find (\<lambda>x. e_id x = entryId) (entries (data a)),
               h_category = None, h_removedEntriesCount = None\<rparr>])"
  using assms by (simp add: onDeleteEntry_def newId_def Let_def split_beta)

lemma onDeleteCategory_history:
  assumes "crypto_bound w" "find (\<lambda>c. c_id c = catId) (categories (data a)) = Some cat"
  shows "history (data (fst (onDeleteCategory P catId True fresh ts a w))) =
           Some (history_or_empty (data a) @
             [\<lparr>h_id = fresh, h_ts = ts, h_type = ''category:delete'', h_entry = None,
               h_category = Some cat,
               h_removedEntriesCount =
                 Some (length (filter (\<lambda>e. e_categoryId e = catId) (entries (data a))))\<rparr>])"
  using assms by (simp add: onDeleteCategory_def newId_def Let_def split_beta removed_count)

lemma currency_handlers_history:
  "history (data (fst (onAddCurrency P code rate a w))) = history (data a)"
  "history (data (fst (onSetBaseCurrency P code a w))) = history (data a)"
  "history (data (fst (onRemoveCurrency P code a w))) = history (data a)"
  by (simp_all add: onAddCurrency_def onSetBaseCurrency_def onRemoveCurrency_def Let_def
      split_beta)

lemma handlers_without_newId:
  assumes "\<not> crypto_bound w"
  shows "fst (onAddEntry P ent fresh ts a w) = a"
    and "fst (onDeleteEntry P entryId fresh ts a w) = a"
    and "fst (onDeleteCategory P catId ok fresh ts a w) = a"
  using assms
  by (simp_all add: onAddEntry_def onDeleteEntry_def onDeleteCategory_def newId_def Let_def
      split: option.splits)

text \<open>
  Claim C5, as the code has it. Adding an entry, deleting an entry and deleting an
  existing category (the dialog confirmed) each append one record to the history list:
  its type is \<open>entry:add\<close>, \<open>entry:delete\<close> or \<open>category:delete\<close>, and it
  carries the entry, the entry found under the identifier, or the category and the
  number of entries removed with it. That is where \<open>newId\<close> returns; where it throws
  (the global \<open>crypto\<close> is not bound) these handlers change nothing. A change of the
  currency table (a currency added, the base currency set, a currency removed) leaves
  the history list as it was.
\<close>

theorem history_records:
  "(crypto_bound w \<longrightarrow>
      history (data (fst (onAddEntry P ent fresh ts a w))) =
        Some (history_or_empty (data a) @
          [\<lparr>h_id = fresh, h_ts = ts, h_type = ''entry:add'', h_entry = Some ent,
            h_category = None, h_removedEntriesCount = None\<rparr>]) \<and>
      history (data (fst (onDeleteEntry P entryId fresh ts a w))) =
        Some (history_or_empty (data a) @
          [\<lparr>h_id = fresh, h_ts = ts, h_type = ''entry:delete'',
            h_entry = find (\<lambda>x. e_id x = entryId) (entries (data a)),
            h_category = None, h_removedEntriesCount = None\<rparr>]) \<and>
      (find (\<lambda>c. c_id c = catId) (categories (data a)) = Some cat \<longrightarrow>
       history (data (fst (onDeleteCategory P catId True fresh ts a w))) =
        Some (history_or_empty (data a) @
          [\<lparr>h_id = fresh, h_ts = ts, h_type = ''category:delete'', h_entry = None,
            h_category = Some cat,
            h_removedEntriesCount =
              Some (length (filter (\<lambda>e. e_categoryId e = catId) (entries (data a))))\<rparr>]))) \<and>
   (\<not> crypto_bound w \<longrightarrow>
      fst (onAddEntry P ent fresh ts a w) = a \<and>
      fst (onDeleteEntry P entryId fresh ts a w) = a \<and>
      fst (onDeleteCategory P catId True fresh ts a w) = a) \<and>
   history (data (fst (onAddCurrency P code rate a w))) = history (data a) \<and>
   history (data (fst (onSetBaseCurrency P code a w))) = history (data a) \<and>
   history (data (fst (onRemoveCurrency P code a w))) = history (data a)"
  by (simp add: onAddEntry_history onDeleteEntry_history onDeleteCategory_history
      currency_handlers_history handlers_without_newId)

lemma demo_app_fields:
  "history_or_empty (data demo_app) = []"
  "history (data demo_app) = Some []"
  "entries (data demo_app) = [demo_entry]"
  "categories (data demo_app) = [demo_category]"
  "currencies (data demo_app) = Some [\<lparr>cur_code = ''BDT'', cur_rate = Num 1\<rparr>]"
  "aesKey demo_app = Some (charCodes ''pw1234qrstuvwxyzabcdef'')"
  "boot demo_app = BootApp"
  by (simp_all add: demo_app_def initialData_def history_or_empty_def)

theorem history_records_witness:
  "crypto_bound (demo_world_setup school) \<and>
   find (\<lambda>c. c_id c = ''c1'') (categories (data demo_app)) = Some demo_category \<and>
   history (data (fst (onAddEntry demo_platform demo_entry ''h1'' ''t1'' demo_app
                         (demo_world_setup school)))) =
     Some [\<lparr>h_id = ''h1'', h_ts = ''t1'', h_type = ''entry:add'', h_entry = Some demo_entry,
            h_category = None, h_removedEntriesCount = None\<rparr>] \<and>
   history (data (fst (onDeleteEntry demo_platform ''e1'' ''h1'' ''t1'' demo_app
                         (demo_world_setup school)))) =
     Some [\<lparr>h_id = ''h1'', h_ts = ''t1'', h_type = ''entry:delete'',
            h_entry = Some demo_entry, h_category = None, h_removedEntriesCount = None\<rparr>] \<and>
   history (data (fst (onDeleteCategory demo_platform ''c1'' True ''h1'' ''t1'' demo_app
                         (demo_world_setup school)))) =
     Some [\<lparr>h_id = ''h1'', h_ts = ''t1'', h_type = ''category:delete'', h_entry = None,
            h_category = Some demo_category, h_removedEntriesCount = Some 1\<rparr>] \<and>
   history (data (fst (onAddCurrency demo_platform ''USD'' (Num 120) demo_app
                         (demo_world_setup school)))) = Some [] \<and>
   \<not> crypto_bound demo_world_no_crypto \<and>
   fst (onAddEntry demo_platform demo_entry ''h1'' ''t1'' demo_app demo_world_no_crypto)
     = demo_app"
proof -
  have c: "crypto_bound (demo_world_setup school)"
    using demo_world_setup_facts(3) [of school] by (simp add: crypto_available_def)
  have f: "find (\<lambda>c. c_id c = ''c1'') (categories (data demo_app)) = Some demo_category"
    by (simp add: demo_app_fields) (simp add: demo_category_def)
  have e: "find (\<lambda>x. e_id x = ''e1'') [demo_entry] = Some demo_entry"
      "filter (\<lambda>e. e_categoryId e = ''c1'') [demo_entry] = [demo_entry]"
    by (simp_all add: demo_entry_def)
  have n: "\<not> crypto_bound demo_world_no_crypto"
    by (simp add: demo_world_no_crypto_def)
  have x: "fst (onAddEntry demo_platform demo_entry ''h1'' ''t1'' demo_app demo_world_no_crypto)
             = demo_app"
    using n history_records [where w = demo_world_no_crypto and P = demo_platform
        and ent = demo_entry and fresh = "''h1''" and ts = "''t1''" and a = demo_app]
    by blast
  have "history (data (fst (onAddEntry demo_platform demo_entry ''h1'' ''t1'' demo_app
                         (demo_world_setup school)))) =
     Some [\<lparr>h_id = ''h1'', h_ts = ''t1'', h_type = ''entry:add'', h_entry = Some demo_entry,
            h_category = None, h_removedEntriesCount = None\<rparr>] \<and>
   history (data (fst (onDeleteEntry demo_platform ''e1'' ''h1'' ''t1'' demo_app
                         (demo_world_setup school)))) =
     Some [\<lparr>h_id = ''h1'', h_ts = ''t1'', h_type = ''entry:delete'',
            h_entry = Some demo_entry, h_category = None, h_removedEntriesCount = None\<rparr>] \<and>
   history (data (fst (onDeleteCategory demo_platform ''c1'' True ''h1'' ''t1'' demo_app
                         (demo_world_setup school)))) =
     Some [\<lparr>h_id = ''h1'', h_ts = ''t1'', h_type = ''category:delete'', h_entry = None,
            h_category = Some demo_category, h_removedEntriesCount = Some 1\<rparr>] \<and>
   history (data (fst (onAddCurrency demo_platform ''USD'' (Num 120) demo_app
                         (demo_world_setup school)))) = Some []"
    using c f history_records [where w = "demo_world_setup school" and P = demo_platform
        and ent = demo_entry and fresh = "''h1''" and ts = "''t1''" and a = demo_app
        and entryId = "''e1''" and catId = "''c1''" and cat = demo_category
        and code = "''USD''" and rate = "Num 120"]
    by (simp add: demo_app_fields e) (simp add: demo_entry_def)
  then show ?thesis
    using c f n x by simp
qed

text \<open>
  Against claim C5 as the spec words it: adding a currency changes the currency table
  and appends nothing to the history list.
\<close>

theorem add_currency_leaves_history:
  "currencies (data (fst (onAddCurrency demo_platform ''USD'' (Num 120) demo_app
                            (demo_world_setup school)))) =
     Some [\<lparr>cur_code = ''BDT'', cur_rate = Num 1\<rparr>, \<lparr>cur_code = ''USD'', cur_rate = Num 120\<rparr>] \<and>
   currencies (data demo_app) = Some [\<lparr>cur_code = ''BDT'', cur_rate = Num 1\<rparr>] \<and>
   history (data demo_app) = Some [] \<and>
   history (data (fst (onAddCurrency demo_platform ''USD'' (Num 120) demo_app
                         (demo_world_setup school)))) = Some []"
  by (simp add: onAddCurrency_def Let_def split_beta demo_app_fields currencies_or_empty_def
      demo_fields number_or_zero_def)

section \<open>Failures of persistence\<close>












section \<open>The stored record after setup\<close>















section \<open>Setup: validation and the stored vault\<close>
















end
